theory Spec2Isabelle
  imports Main
begin

section \<open>Python strings\<close>

text \<open>
  A Python \<open>str\<close> is a sequence of code points. The model uses \<open>string\<close> and reads each
  \<open>char\<close> as the code point with the same number, so it covers the texts over code points
  0..255 (ASCII and Latin-1); \<open>length\<close> is then Python's \<open>len\<close>. The character classes
  below are those of CPython's Unicode database restricted to that range.
\<close>

definition cp :: "char \<Rightarrow> nat" where
  "cp c = of_char c"

definition py_isspace :: "char \<Rightarrow> bool" where
  \<comment> \<open>the characters removed by \<open>str.strip()\<close> and skipped by \<open>int()\<close>\<close>
  "py_isspace c =
     (let n = cp c in (9 \<le> n \<and> n \<le> 13) \<or> (28 \<le> n \<and> n \<le> 32) \<or> n = 133 \<or> n = 160)"

definition strip :: "string \<Rightarrow> string" where
  "strip s = rev (dropWhile py_isspace (rev (dropWhile py_isspace s)))"

definition is_dec :: "char \<Rightarrow> bool" where
  \<comment> \<open>decimal digits (category Nd): what \<open>int()\<close> and the pattern \<open>\\d\<close> accept\<close>
  "is_dec c = (48 \<le> cp c \<and> cp c \<le> 57)"

definition py_isdigit_c :: "char \<Rightarrow> bool" where
  \<comment> \<open>\<open>str.isdigit\<close> also accepts the superscript digits U+00B2, U+00B3, U+00B9\<close>
  "py_isdigit_c c = (is_dec c \<or> cp c = 178 \<or> cp c = 179 \<or> cp c = 185)"

definition isdigit :: "string \<Rightarrow> bool" where
  "isdigit s = (s \<noteq> [] \<and> list_all py_isdigit_c s)"

definition py_isalnum_c :: "char \<Rightarrow> bool" where
  "py_isalnum_c c =
     (let n = cp c in
        (48 \<le> n \<and> n \<le> 57) \<or> (65 \<le> n \<and> n \<le> 90) \<or> (97 \<le> n \<and> n \<le> 122)
      \<or> n = 170 \<or> n = 178 \<or> n = 179 \<or> n = 181 \<or> n = 185 \<or> n = 186
      \<or> n = 188 \<or> n = 189 \<or> n = 190
      \<or> (192 \<le> n \<and> n \<le> 214) \<or> (216 \<le> n \<and> n \<le> 246) \<or> (248 \<le> n \<and> n \<le> 255))"

definition isalnum :: "string \<Rightarrow> bool" where
  "isalnum s = (s \<noteq> [] \<and> list_all py_isalnum_c s)"

definition lower_c :: "char \<Rightarrow> char" where
  "lower_c c =
     (let n = cp c in
        if (65 \<le> n \<and> n \<le> 90) \<or> (192 \<le> n \<and> n \<le> 222 \<and> n \<noteq> 215)
        then char_of (n + 32) else c)"

definition lower :: "string \<Rightarrow> string" where
  "lower s = map lower_c s"

definition startswith :: "string \<Rightarrow> string \<Rightarrow> bool" where
  "startswith s p = (take (length p) s = p)"

definition lstrip_char :: "char \<Rightarrow> string \<Rightarrow> string" where
  \<comment> \<open>\<open>s.lstrip(c)\<close> for a one-character argument\<close>
  "lstrip_char c s = dropWhile (\<lambda>x. x = c) s"

definition remove_char :: "char \<Rightarrow> string \<Rightarrow> string" where
  \<comment> \<open>\<open>s.replace(c, '')\<close> for a one-character \<open>c\<close>\<close>
  "remove_char c s = filter (\<lambda>x. x \<noteq> c) s"

subsection \<open>\<open>int(text)\<close>\<close>

text \<open>
  \<open>int(s)\<close> in base 10: surrounding whitespace is dropped, then an optional sign, then
  decimal digits in which single underscores may separate digits. \<open>None\<close> is
  \<open>ValueError\<close>. (CPython also refuses more than 4300 digits; a Telegram text has at
  most 4096 characters.)
\<close>

fun int_digits :: "int \<Rightarrow> string \<Rightarrow> int option" where
  "int_digits acc [] = Some acc"
| "int_digits acc (c # cs) =
     (if is_dec c then int_digits (10 * acc + (int (cp c) - 48)) cs
      else if c = CHR ''_'' then
        (case cs of
           [] \<Rightarrow> None
         | d # ds \<Rightarrow> if is_dec d then int_digits (10 * acc + (int (cp d) - 48)) ds else None)
      else None)"

definition int_unsigned :: "string \<Rightarrow> int option" where
  "int_unsigned s =
     (case s of
        [] \<Rightarrow> None
      | c # cs \<Rightarrow> if is_dec c then int_digits (int (cp c) - 48) cs else None)"

definition py_int :: "string \<Rightarrow> int option" where
  "py_int s =
     (case strip s of
        [] \<Rightarrow> None
      | c # cs \<Rightarrow>
          if c = CHR ''+'' then int_unsigned cs
          else if c = CHR ''-'' then map_option uminus (int_unsigned cs)
          else int_unsigned (c # cs))"

subsection \<open>Indexing a list\<close>

definition py_index :: "'a list \<Rightarrow> int \<Rightarrow> 'a option" where
  \<comment> \<open>\<open>xs[i]\<close>; negative indices count from the end; \<open>None\<close> is \<open>IndexError\<close>\<close>
  "py_index xs i =
     (if 0 \<le> i \<and> i < int (length xs) then Some (xs ! nat i)
      else if - int (length xs) \<le> i \<and> i < 0 then Some (xs ! nat (int (length xs) + i))
      else None)"

definition py_pop :: "'a list \<Rightarrow> nat \<Rightarrow> 'a list" where
  \<comment> \<open>the list after \<open>xs.pop(i)\<close>, for \<open>0 \<le> i < len(xs)\<close>\<close>
  "py_pop xs i = take i xs @ drop (Suc i) xs"

section \<open>Validators\<close>

subsection \<open>Regular expressions\<close>

datatype rx = Nul | Eps | Cls "char \<Rightarrow> bool" | Seq rx rx | Alt rx rx | Star rx

fun nullable :: "rx \<Rightarrow> bool" where
  "nullable Nul = False"
| "nullable Eps = True"
| "nullable (Cls p) = False"
| "nullable (Seq r s) = (nullable r \<and> nullable s)"
| "nullable (Alt r s) = (nullable r \<or> nullable s)"
| "nullable (Star r) = True"

fun deriv :: "char \<Rightarrow> rx \<Rightarrow> rx" where
  "deriv c Nul = Nul"
| "deriv c Eps = Nul"
| "deriv c (Cls p) = (if p c then Eps else Nul)"
| "deriv c (Seq r s) =
     (if nullable r then Alt (Seq (deriv c r) s) (deriv c s) else Seq (deriv c r) s)"
| "deriv c (Alt r s) = Alt (deriv c r) (deriv c s)"
| "deriv c (Star r) = Seq (deriv c r) (Star r)"

fun rx_match :: "rx \<Rightarrow> string \<Rightarrow> bool" where
  \<comment> \<open>the whole string is in the language of the expression\<close>
  "rx_match r [] = nullable r"
| "rx_match r (c # cs) = rx_match (deriv c r) cs"

definition rx_lit :: "string \<Rightarrow> rx" where
  "rx_lit s = foldr (\<lambda>c r. Seq (Cls (\<lambda>x. x = c)) r) s Eps"

definition rx_opt :: "rx \<Rightarrow> rx" where
  "rx_opt r = Alt r Eps"

definition rx_plus :: "rx \<Rightarrow> rx" where
  "rx_plus r = Seq r (Star r)"

definition re_match_anchored :: "rx \<Rightarrow> string \<Rightarrow> bool" where
  \<comment> \<open>\<open>re.match(r"^...$", s)\<close>: \<open>$\<close> matches at the end and before a final newline\<close>
  "re_match_anchored r s =
     (rx_match r s \<or> (s \<noteq> [] \<and> last s = CHR 0x0A \<and> rx_match r (butlast s)))"

subsection \<open>\<open>is_valid_url\<close>, \<open>is_valid_caption\<close>\<close>

definition word_c :: "char \<Rightarrow> bool" where
  \<comment> \<open>\<open>\\w\<close>\<close>
  "word_c c = (py_isalnum_c c \<or> c = CHR ''_'')"

definition host_c :: "char \<Rightarrow> bool" where
  \<comment> \<open>\<open>[\\w\\-]\<close>\<close>
  "host_c c = (word_c c \<or> c = CHR ''-'')"

definition path_c :: "char \<Rightarrow> bool" where
  \<comment> \<open>\<open>[\\w\\-._~:/?#\\[\\]@!$&'()*+,;=%]\<close>\<close>
  "path_c c = (word_c c \<or> c \<in> set ''-._~:/?#[]@!$&()*+,;=%'' \<or> c = CHR 0x27)"

definition url_rx :: rx where
  "url_rx =
     Seq (Seq (rx_lit ''http'') (Seq (rx_opt (rx_lit ''s'')) (rx_lit ''://'')))
    (Seq (rx_plus (Cls host_c))
    (Seq (rx_plus (Seq (rx_lit ''.'') (rx_plus (Cls host_c))))
    (Seq (rx_opt (Seq (rx_lit '':'') (rx_plus (Cls is_dec))))
         (rx_opt (Seq (rx_lit ''/'') (Star (Cls path_c)))))))"

definition is_valid_url :: "string \<Rightarrow> bool" where
  "is_valid_url url = (if url = [] then False else re_match_anchored url_rx (strip url))"

definition is_valid_caption :: "string \<Rightarrow> bool" where
  "is_valid_caption c = (length c \<le> 1024)"

section \<open>Data\<close>

type_synonym addr = nat

record tg_user =
  uid :: int
  username :: "string option"

text \<open>A row of table \<open>users\<close> (the columns the bot reads).\<close>

record db_row =
  row_tg_id :: int
  row_name :: "string option"
  row_gender :: "string option"
  row_age :: "int option"
  row_vk_id :: "string option"

definition row_checks :: "db_row \<Rightarrow> bool" where
  \<comment> \<open>the CHECK constraints of the schema (\<open>init_schema\<close>); NULL passes a CHECK\<close>
  "row_checks r =
     ((case row_gender r of None \<Rightarrow> True | Some g \<Rightarrow> g = ''male'' \<or> g = ''female'')
    \<and> (case row_age r of None \<Rightarrow> True | Some a \<Rightarrow> 14 \<le> a \<and> a \<le> 100))"

text \<open>An awaited call to the database either raises or returns.\<close>

datatype 'a db_reply = DbError | DbOk 'a

text \<open>
  A poster dictionary. For \<open>file_id\<close> and \<open>caption\<close>, \<open>None\<close> is a missing key (the
  code never stores \<open>None\<close> under them in a poster): \<open>.get("caption", default)\<close> then
  gives the default and \<open>poster["file_id"]\<close> raises. For \<open>ticket_url\<close>, which is read
  with \<open>.get\<close> only, \<open>None\<close> is a missing key or the value \<open>None\<close>. A stored poster
  has at least one key, so it is a true value.
\<close>

record poster =
  file_id :: "string option"
  caption :: "string option"
  ticket_url :: "string option"

record draft =
  step :: string
  draft_file_id :: "string option"
  draft_caption :: "string option"
  draft_ticket_url :: "string option"

text \<open>
  \<open>context.user_data\<close>: one dictionary per user. A field is \<open>None\<close> when the key is
  missing (or holds \<open>None\<close>: the code reads these keys with \<open>.get\<close>).
\<close>

record user_data =
  name :: "string option"
  gender :: "string option"
  age :: "int option"
  vk_id :: "string option"
  registered :: "bool option"
  registration_step :: "string option"
  awaiting_vk :: "bool option"
  awaiting_username_check :: "bool option"
  continuous_check_mode :: "bool option"
  awaiting_ticket :: "bool option"
  awaiting_broadcast_text :: "bool option"
  poster_draft :: "draft option"
  current_poster_index :: "int option"
  attended_weeks :: "string set"
  missed_in_row :: "int option"

definition empty_user_data :: user_data where
  "empty_user_data =
     \<lparr>name = None, gender = None, age = None, vk_id = None, registered = None,
      registration_step = None, awaiting_vk = None, awaiting_username_check = None,
      continuous_check_mode = None, awaiting_ticket = None, awaiting_broadcast_text = None,
      poster_draft = None, current_poster_index = None, attended_weeks = {},
      missed_in_row = None\<rparr>"

text \<open>
  \<open>context.bot_data\<close>. Poster dictionaries are shared objects: \<open>bot_data["poster"]\<close>
  and the elements of \<open>bot_data["all_posters"]\<close> are references into \<open>heap\<close>, and a
  new dictionary takes the next free address.
\<close>

record bot_data =
  poster_ref :: "addr option"
  all_posters :: "addr list"
  heap :: "poster list"
  known_users :: "int list"
  admins :: "int set"
  user_vk_cache :: "int \<rightharpoonup> string"

definition truthy :: "string option \<Rightarrow> bool" where
  \<comment> \<open>truth value of an optional string: neither \<open>None\<close> nor empty\<close>
  "truthy v = (case v of None \<Rightarrow> False | Some s \<Rightarrow> s \<noteq> [])"

definition flag :: "bool option \<Rightarrow> bool" where
  \<comment> \<open>truth value of \<open>user_data.get(key)\<close> for a key that holds booleans\<close>
  "flag v = (v = Some True)"

subsection \<open>The environment of one event\<close>

text \<open>
  What the outside world answers while one event is handled: the configuration read at
  start-up and the replies of the database, of Telegram and of VK.
\<close>

datatype 'a http = HttpRaise | HttpErrorJson | HttpOk 'a

text \<open>
  \<open>vk_enabled\<close> is \<open>VK_ENABLED = bool(VK_TOKEN)\<close>; an administrator id is 0 when
  it is not configured. \<open>get_chat_member_reply k u\<close> is the member status of user \<open>u\<close>
  in channel \<open>k\<close> (1 or 2), \<open>None\<close> when the call raises; \<open>get_chat_reply\<close> is the
  id of \<open>get_chat\<close>, \<open>None\<close> when it raises. A VK call raises, returns a JSON with
  an \<open>error\<close> key, or returns a response.
\<close>

record env =
  vk_enabled :: bool
  admin_user_id :: int
  admin_user_id_2 :: int
  admin_user_id_3 :: int
  pool :: bool
  get_user_reply :: "int \<Rightarrow> db_row option db_reply"
  get_user_by_username_reply :: "string \<Rightarrow> db_row option db_reply"
  fetch_name_reply :: "string option option db_reply"
  set_vk_id_ok :: bool
  get_chat_member_reply :: "nat \<Rightarrow> int \<Rightarrow> string option"
  get_chat_reply :: "string \<Rightarrow> int option"
  vk_group_reply :: "int http"
  vk_resolve_reply :: "string \<Rightarrow> (string \<times> string) option http"
  vk_is_member_reply :: "int \<Rightarrow> string \<Rightarrow> int http"
  vk_wall_post_ok :: bool

subsection \<open>What a handler does to the outside\<close>

datatype button = Callback string | DeleteCallback int | Url string

datatype vk_line = VkNotLinked | VkCouldNotCheck | VkSubscribed | VkNotSubscribed

text \<open>
  The messages of the bot. A fixed text is \<open>Plain\<close> with a key that names it; a text
  that is built from data carries the data.
\<close>

datatype msg =
    Plain string
  | AskGender "string option"
  | NiceToMeetYou string
  | NoPostersYet bool
  | MainMenuPoster string string "button list"
  | YourId int
  | SubscriptionStatus bool bool "vk_line option" bool "button list"
  | VkLinkForm bool
  | AdminPanel nat bool bool
  | PosterDeleted string nat
  | GenderSaved string
  | CurrentPosterDeleted nat
  | UsersCount nat
  | PosterPhoto "string option" "string option" "string option"
  | PosterSaved nat
  | PosterList "(bool \<times> string \<times> bool) list"
  | RegistrationDone string string int
  | LookupNotFound string bool
  | LookupReport string int bool bool "vk_line option" bool bool
  | LookupFailed bool
  | BroadcastText string
  | VkLinked bool
  | BroadcastReport nat nat bool

text \<open>
  \<open>Reply\<close> is a message to the chat of the event, \<open>SendTo\<close> a message to another
  chat; a \<open>SendTo\<close> that fails is caught and logged by the code. The two database
  effects and \<open>VkWallPost\<close> are the calls as made, whatever their outcome. \<open>Raised\<close>
  is an exception that leaves the function.
\<close>

datatype effect =
    Reply msg
  | SendTo int msg
  | DbUpsert int "string option" "string option" "int option" "string option" "string option"
  | DbSetVkId int string
  | VkWallPost string
  | Raised

section \<open>Helpers\<close>

definition get_admins :: "env \<Rightarrow> bot_data \<Rightarrow> bot_data" where
  \<comment> \<open>the administrators of the configuration are added to \<open>bot_data["admins"]\<close>\<close>
  "get_admins e bd =
     bd\<lparr>admins := admins bd
        \<union> {a \<in> {admin_user_id e, admin_user_id_2 e, admin_user_id_3 e}. a \<noteq> 0}\<rparr>"

definition get_known_users_add :: "int \<Rightarrow> bot_data \<Rightarrow> bot_data" where
  \<comment> \<open>\<open>get_known_users(context).add(u)\<close>; the list stands for the set, in the order it
     is iterated\<close>
  "get_known_users_add u bd = bd\<lparr>known_users := List.insert u (known_users bd)\<rparr>"

definition load_user_data_from_db :: "env \<Rightarrow> int \<Rightarrow> user_data \<Rightarrow> user_data" where
  "load_user_data_from_db e u ud =
     (if \<not> pool e then ud
      else case get_user_reply e u of
        DbError \<Rightarrow> ud
      | DbOk None \<Rightarrow>
          ud\<lparr>registered := Some False, name := None, gender := None, age := None,
             vk_id := None\<rparr>
      | DbOk (Some r) \<Rightarrow>
          (let ud1 = ud\<lparr>name := row_name r, gender := row_gender r, age := row_age r\<rparr>;
               ud2 = (if truthy (row_vk_id r) then ud1\<lparr>vk_id := row_vk_id r\<rparr> else ud1);
               has_required_data =
                 (truthy (row_name r) \<and> truthy (row_gender r) \<and> row_age r \<noteq> None)
           in ud2\<lparr>registered := Some has_required_data\<rparr>))"

definition is_registered :: "user_data \<Rightarrow> bool" where
  \<comment> \<open>the local \<open>is_registered\<close> of \<open>start\<close> and \<open>menu\<close>\<close>
  "is_registered ud =
     (registered ud = Some True \<and> truthy (name ud) \<and> truthy (gender ud) \<and> age ud \<noteq> None)"

definition has_partial_data :: "user_data \<Rightarrow> bool" where
  "has_partial_data ud = (truthy (name ud) \<or> truthy (gender ud) \<or> age ud \<noteq> None)"

section \<open>Commands\<close>

definition start :: "env \<Rightarrow> tg_user \<Rightarrow> bot_data \<times> user_data \<Rightarrow> bot_data \<times> user_data \<times> effect list" where
  "start e user s =
     (let bd = get_known_users_add (uid user) (fst s);
          fx = (if pool e then [DbUpsert (uid user) None None None None (username user)] else []);
          ud = load_user_data_from_db e (uid user) (snd s)
      in if is_registered ud then
           (bd,
            ud\<lparr>registration_step := None, awaiting_vk := None, awaiting_username_check := None\<rparr>,
            fx @ [Reply (Plain ''already_registered'')])
         else if has_partial_data ud then
           (if \<not> truthy (name ud) then
              (bd, ud\<lparr>registration_step := Some ''name''\<rparr>, fx @ [Reply (Plain ''continue_ask_name'')])
            else if \<not> truthy (gender ud) then
              (bd, ud\<lparr>registration_step := Some ''gender''\<rparr>, fx @ [Reply (AskGender (name ud))])
            else if age ud = None then
              (bd, ud\<lparr>registration_step := Some ''age''\<rparr>, fx @ [Reply (Plain ''last_step_ask_age'')])
            else (bd, ud, fx))
         else (bd, ud\<lparr>registration_step := Some ''name''\<rparr>, fx @ [Reply (Plain ''welcome_ask_name'')]))"

definition poster_in_list :: "bot_data \<Rightarrow> addr \<Rightarrow> bool" where
  \<comment> \<open>\<open>current_poster in all_posters\<close>: dictionaries compare by value\<close>
  "poster_in_list bd a = (heap bd ! a \<in> set (map (\<lambda>b. heap bd ! b) (all_posters bd)))"

definition clamp_poster_index :: "nat \<Rightarrow> user_data \<Rightarrow> user_data \<times> int" where
  \<comment> \<open>the index \<open>show_main_menu\<close> reads the non-empty list of \<open>n\<close> posters at\<close>
  "clamp_poster_index n ud =
     (let ud1 = (if current_poster_index ud = None \<and> n \<noteq> 0
                 then ud\<lparr>current_poster_index := Some (int n - 1)\<rparr> else ud);
          i = (case current_poster_index ud1 of None \<Rightarrow> 0 | Some i \<Rightarrow> i)
      in if i \<ge> int n then (ud1\<lparr>current_poster_index := Some (int n - 1)\<rparr>, int n - 1)
         else if i < 0 then (ud1\<lparr>current_poster_index := Some 0\<rparr>, 0)
         else (ud1, i))"

text \<open>
  \<open>show_main_menu\<close> sends a header message, then the photo, then deletes the header.
  \<open>poster["file_id"]\<close> on a dictionary without that key raises inside the \<open>try\<close>
  block after the header is out: the header stays and the error message follows. The
  read of the list itself is outside the \<open>try\<close> block: an \<open>IndexError\<close> there leaves
  the handler (\<open>Raised\<close>).
\<close>

definition show_main_menu :: "env \<Rightarrow> tg_user \<Rightarrow> bot_data \<times> user_data \<Rightarrow> bot_data \<times> user_data \<times> effect list" where
  "show_main_menu e user s =
     (let ud0 = load_user_data_from_db e (uid user) (snd s);
          bd0 = fst s;
          bd1 = (case poster_ref bd0 of
                   None \<Rightarrow> bd0
                 | Some a \<Rightarrow> if \<not> poster_in_list bd0 a
                            then bd0\<lparr>all_posters := all_posters bd0 @ [a]\<rparr> else bd0)
      in if all_posters bd1 = [] then
           (let bd2 = get_admins e bd1
            in (bd2, ud0, [Reply (NoPostersYet (uid user \<in> admins bd2))]))
         else
           (let n = length (all_posters bd1);
                (ud1, i) = clamp_poster_index n ud0
            in case py_index (all_posters bd1) i of
                 None \<Rightarrow> (bd1, ud1, [Raised])
               | Some a \<Rightarrow>
                   (let p = heap bd1 ! a;
                        nav = (if n > 1
                               then (if i > 0 then [Callback ''poster_prev''] else [])
                                  @ (if i < int n - 1 then [Callback ''poster_next''] else [])
                               else []);
                        ticket = (if truthy (ticket_url p) then [Url (the (ticket_url p))]
                                  else []);
                        vk = (if vk_enabled e
                              then (if \<not> truthy (vk_id ud1) then [Callback ''link_vk''] else [Callback ''link_vk''])
                              else []);
                        bd2 = get_admins e bd1;
                        adm = (if uid user \<in> admins bd2 then [Callback ''open_admin'', DeleteCallback i] else [])
                    in case file_id p of
                         Some f \<Rightarrow>
                           (bd2, ud1,
                            [Reply (MainMenuPoster f (case caption p of None \<Rightarrow> [] | Some c \<Rightarrow> c)
                                      (nav @ ticket @ vk @ adm))])
                       | None \<Rightarrow>
                           (bd2, ud1,
                            [Reply (Plain ''main_menu_header''),
                             Reply (Plain ''poster_load_error'')]))))"

definition menu :: "env \<Rightarrow> tg_user \<Rightarrow> bot_data \<times> user_data \<Rightarrow> bot_data \<times> user_data \<times> effect list" where
  "menu e user s =
     (let bd = get_known_users_add (uid user) (fst s);
          ud = load_user_data_from_db e (uid user) (snd s)
      in if \<not> is_registered ud then (bd, ud, [Reply (Plain ''need_registration'')])
         else show_main_menu e user (bd, ud))"

section \<open>Membership checks\<close>

definition is_member_status :: "string \<Rightarrow> bool" where
  "is_member_status st = (st \<in> set [''member'', ''administrator'', ''creator''])"

definition channel_ok :: "env \<Rightarrow> nat \<Rightarrow> int \<Rightarrow> bool" where
  \<comment> \<open>one \<open>try\<close> block of \<open>is_user_subscribed\<close>: the result starts as \<open>False\<close> and a
     raising call leaves it so\<close>
  "channel_ok e k u =
     (case get_chat_member_reply e k u of None \<Rightarrow> False | Some st \<Rightarrow> is_member_status st)"

definition is_user_subscribed :: "env \<Rightarrow> int \<Rightarrow> bool \<times> bool" where
  "is_user_subscribed e u = (channel_ok e 1 u, channel_ok e 2 u)"

definition vk_numeric_id :: "env \<Rightarrow> string \<Rightarrow> string option" where
  \<comment> \<open>step 2 of \<open>is_user_subscribed_vk\<close>: \<open>id123\<close>, \<open>123\<close> or a screen name to resolve;
     \<open>None\<close> is the early \<open>return None\<close>\<close>
  "vk_numeric_id e raw =
     (if startswith (lower raw) ''id'' \<and> isdigit (drop 2 raw) then Some (drop 2 raw)
      else if isdigit raw then Some raw
      else case vk_resolve_reply e raw of
             HttpRaise \<Rightarrow> None
           | HttpErrorJson \<Rightarrow> None
           | HttpOk None \<Rightarrow> None
           | HttpOk (Some (ty, object_id)) \<Rightarrow>
               if ty \<noteq> ''user'' then None else Some object_id)"

definition is_user_subscribed_vk :: "env \<Rightarrow> string \<Rightarrow> bool option" where
  "is_user_subscribed_vk e vk_user_id =
     (if \<not> vk_enabled e then None
      else case vk_group_reply e of
             HttpRaise \<Rightarrow> None
           | HttpErrorJson \<Rightarrow> None
           | HttpOk group_id \<Rightarrow>
               (case vk_numeric_id e (strip vk_user_id) of
                  None \<Rightarrow> None
                | Some user_id_numeric \<Rightarrow>
                    (case vk_is_member_reply e group_id user_id_numeric of
                       HttpRaise \<Rightarrow> None
                     | HttpErrorJson \<Rightarrow> None
                     | HttpOk resp_val \<Rightarrow> Some (resp_val \<noteq> 0))))"

definition vk_status_line :: "env \<Rightarrow> string option \<Rightarrow> bool option \<Rightarrow> vk_line option" where
  \<comment> \<open>the VK line of both reports; none when VK is disabled\<close>
  "vk_status_line e vk vk_status =
     (if vk_enabled e then
        (if \<not> truthy vk then Some VkNotLinked
         else case vk_status of
                None \<Rightarrow> Some VkCouldNotCheck
              | Some True \<Rightarrow> Some VkSubscribed
              | Some False \<Rightarrow> Some VkNotSubscribed)
      else None)"

definition check_all_passed :: "env \<Rightarrow> bool \<Rightarrow> bool \<Rightarrow> string option \<Rightarrow> bool option \<Rightarrow> bool" where
  \<comment> \<open>\<open>all_tg_ok and (not VK_ENABLED or not vk_id or vk_status)\<close>\<close>
  "check_all_passed e tg1_ok tg2_ok vk vk_status =
     ((tg1_ok \<and> tg2_ok) \<and> (\<not> vk_enabled e \<or> \<not> truthy vk \<or> vk_status = Some True))"

definition lookup_all_ok :: "env \<Rightarrow> bool \<Rightarrow> bool \<Rightarrow> bool option \<Rightarrow> bool" where
  \<comment> \<open>\<open>tg1_ok and tg2_ok and (not VK_ENABLED or vk_status)\<close>\<close>
  "lookup_all_ok e tg1_ok tg2_ok vk_status =
     (tg1_ok \<and> tg2_ok \<and> (\<not> vk_enabled e \<or> vk_status = Some True))"

section \<open>Registration\<close>

definition gender_text :: "string option \<Rightarrow> string \<Rightarrow> string" where
  \<comment> \<open>the dictionary lookup \<open>{"male": ..., "female": ...}.get(gender, default)\<close>; the
     keys stand for the Russian words\<close>
  "gender_text g dflt =
     (if g = Some ''male'' then ''male_word''
      else if g = Some ''female'' then ''female_word'' else dflt)"

definition name_not_given :: string where
  \<comment> \<open>stands for the Russian placeholder the code uses for a missing name\<close>
  "name_not_given = ''(not given)''"

definition handle_registration_step ::
  "env \<Rightarrow> tg_user \<Rightarrow> string \<Rightarrow> user_data \<Rightarrow> string \<Rightarrow> user_data \<times> effect list" where
  "handle_registration_step e user text ud reg_step =
     (if reg_step = ''name'' then
        (let nm = strip text
         in (ud\<lparr>name := Some nm, registration_step := Some ''gender''\<rparr>,
             (if pool e then [DbUpsert (uid user) (Some nm) None None None (username user)]
              else [])
             @ [Reply (NiceToMeetYou nm)]))
      else if reg_step = ''age'' then
        (case py_int (strip text) of
           None \<Rightarrow> (ud, [Reply (Plain ''age_bad_format'')])
         | Some a \<Rightarrow>
             if a < 14 \<or> a > 100 then (ud, [Reply (Plain ''age_out_of_range'')])
             else
               (let ud1 = ud\<lparr>age := Some a, registered := Some True, registration_step := None\<rparr>;
                    ud2 = (if \<not> truthy (name ud1) \<and> pool e then
                             (case fetch_name_reply e of
                                DbOk (Some (Some n)) \<Rightarrow> if n \<noteq> [] then ud1\<lparr>name := Some n\<rparr> else ud1
                              | _ \<Rightarrow> ud1)
                           else ud1);
                    nm = (if \<not> truthy (name ud2) then name_not_given else the (name ud2))
                in (ud2,
                    (if pool e
                     then [DbUpsert (uid user) (Some nm) (gender ud2) (Some a) (vk_id ud2)
                             (username user)]
                     else [])
                    @ [Reply (RegistrationDone nm (gender_text (gender ud2) ''not_given_word'') a)])))
      else (ud, []))"

section \<open>Administration and broadcasts\<close>

definition admin_panel :: "env \<Rightarrow> tg_user \<Rightarrow> bot_data \<Rightarrow> bot_data \<times> effect list" where
  "admin_panel e user bd0 =
     (let bd1 = get_admins e bd0;
          bd = (if admins bd1 = {} then bd1\<lparr>admins := insert (uid user) (admins bd1)\<rparr> else bd1)
      in if uid user \<notin> admins bd then (bd, [Reply (Plain ''admin_only'')])
         else
           (bd, [Reply (AdminPanel (length (all_posters bd)) (poster_ref bd \<noteq> None)
                   (case poster_ref bd of
                      None \<Rightarrow> False
                    | Some a \<Rightarrow> truthy (ticket_url (heap bd ! a))))]))"

definition send_poster_to_chat :: "bot_data \<Rightarrow> int \<Rightarrow> effect list" where
  "send_poster_to_chat bd chat_id =
     (if all_posters bd = [] then [SendTo chat_id (Plain ''no_posters_yet'')]
      else (let p = heap bd ! last (all_posters bd)
            in [SendTo chat_id (PosterPhoto (file_id p) (caption p) (ticket_url p))]))"

definition vk_post_text :: "poster \<Rightarrow> string" where
  "vk_post_text p =
     (case caption p of None \<Rightarrow> [] | Some c \<Rightarrow> c)
     @ (if truthy (ticket_url p) then ''[tickets] '' @ the (ticket_url p) else [])"

definition do_weekly_broadcast :: "env \<Rightarrow> bot_data \<Rightarrow> effect list" where
  "do_weekly_broadcast e bd =
     (if known_users bd = [] then []
      else if all_posters bd = [] then []
      else
        (let latest_poster = heap bd ! last (all_posters bd);
             success_count = length (known_users bd);
             vk_success = (vk_enabled e \<and> vk_wall_post_ok e)
         in concat (map (send_poster_to_chat bd) (known_users bd))
            @ (if vk_enabled e then [VkWallPost (vk_post_text latest_poster)] else [])
            @ (if admin_user_id e \<noteq> 0
               then [SendTo (admin_user_id e)
                       (BroadcastReport success_count (length (known_users bd)) vk_success)]
               else [])))"

section \<open>The weekly re-engagement pass\<close>




section \<open>Buttons\<close>

type_synonym state = "bot_data \<times> user_data"
type_synonym result = "bot_data \<times> user_data \<times> effect list"

definition index_to_last :: "bot_data \<Rightarrow> user_data \<Rightarrow> user_data" where
  \<comment> \<open>\<open>if all_posters: user_data["current_poster_index"] = len(all_posters) - 1\<close>\<close>
  "index_to_last bd ud =
     (if all_posters bd \<noteq> []
      then ud\<lparr>current_poster_index := Some (int (length (all_posters bd)) - 1)\<rparr> else ud)"

definition current_index_or_last :: "bot_data \<Rightarrow> user_data \<Rightarrow> int" where
  \<comment> \<open>\<open>user_data.get("current_poster_index", len(all_posters) - 1 if all_posters else 0)\<close>\<close>
  "current_index_or_last bd ud =
     (case current_poster_index ud of
        Some i \<Rightarrow> i
      | None \<Rightarrow> if all_posters bd \<noteq> [] then int (length (all_posters bd)) - 1 else 0)"

definition btn_check_all :: "env \<Rightarrow> tg_user \<Rightarrow> state \<Rightarrow> result" where
  "btn_check_all e user s =
     (let (tg1_ok, tg2_ok) = is_user_subscribed e (uid user);
          vk = vk_id (snd s);
          vk_status = (if vk_enabled e \<and> truthy vk then is_user_subscribed_vk e (the vk)
                       else None);
          btns = (if \<not> tg1_ok then [Url ''channel_1''] else [])
               @ (if \<not> tg2_ok then [Url ''channel_2''] else [])
               @ (if vk_enabled e then [Callback ''link_vk''] else [])
               @ [Callback ''check_all'', Callback ''back_to_menu'']
      in (fst s, snd s,
          [Reply (SubscriptionStatus tg1_ok tg2_ok (vk_status_line e vk vk_status)
                    (check_all_passed e tg1_ok tg2_ok vk vk_status) btns)]))"

definition btn_link_vk :: "state \<Rightarrow> result" where
  "btn_link_vk s =
     (fst s, (snd s)\<lparr>awaiting_vk := Some True\<rparr>, [Reply (VkLinkForm (truthy (vk_id (snd s))))])"

definition short_caption :: "nat \<Rightarrow> poster \<Rightarrow> string" where
  \<comment> \<open>the caption, or a placeholder, cut to \<open>k\<close> characters\<close>
  "short_caption k p =
     (let c = (case caption p of None \<Rightarrow> ''(no description)'' | Some c \<Rightarrow> c)
      in if length c > k then take k c @ ''...'' else c)"

definition btn_delete_poster :: "string \<Rightarrow> state \<Rightarrow> result" where
  \<comment> \<open>\<open>arg\<close> is what follows \<open>delete_poster:\<close> in the callback data\<close>
  "btn_delete_poster arg s =
     (let bd = fst s in
      case py_int arg of
        None \<Rightarrow> (bd, snd s, [Reply (Plain ''poster_delete_error'')])
      | Some poster_index \<Rightarrow>
          if 0 \<le> poster_index \<and> poster_index < int (length (all_posters bd)) then
            (let deleted_poster = heap bd ! (all_posters bd ! nat poster_index);
                 rest = py_pop (all_posters bd) (nat poster_index);
                 bd1 = bd\<lparr>all_posters := rest\<rparr>;
                 bd2 = (case poster_ref bd1 of
                          None \<Rightarrow> bd1
                        | Some c \<Rightarrow>
                            if heap bd1 ! c = deleted_poster then
                              (if rest \<noteq> [] then bd1\<lparr>poster_ref := Some (last rest)\<rparr>
                               else bd1\<lparr>poster_ref := None\<rparr>)
                            else bd1)
             in (bd2, snd s,
                 [Reply (PosterDeleted (short_caption 50 deleted_poster) (length rest))]))
          else (bd, snd s, [Reply (Plain ''bad_poster_number'')]))"

definition btn_gender :: "env \<Rightarrow> tg_user \<Rightarrow> string \<Rightarrow> state \<Rightarrow> result" where
  \<comment> \<open>\<open>g\<close> is what follows \<open>gender_\<close> in the callback data\<close>
  "btn_gender e user g s =
     (fst s, (snd s)\<lparr>gender := Some g, registration_step := Some ''age''\<rparr>,
      (if pool e then [DbUpsert (uid user) None (Some g) None None (username user)] else [])
      @ [Reply (GenderSaved (gender_text (Some g) []))])"

fun remove_first_equal :: "poster list \<Rightarrow> poster \<Rightarrow> addr list \<Rightarrow> addr list" where
  \<comment> \<open>\<open>all_posters.remove(p)\<close>: the first element equal (by value) to \<open>p\<close> goes\<close>
  "remove_first_equal h p [] = []"
| "remove_first_equal h p (a # as) =
     (if h ! a = p then as else a # remove_first_equal h p as)"

definition admin_delete_poster :: "state \<Rightarrow> result" where
  "admin_delete_poster s =
     (let bd = fst s in
      case poster_ref bd of
        None \<Rightarrow> (bd, snd s, [Reply (Plain ''no_poster_to_delete'')])
      | Some c \<Rightarrow>
          (let rest = remove_first_equal (heap bd) (heap bd ! c) (all_posters bd);
               bd1 = bd\<lparr>poster_ref := None, all_posters := rest\<rparr>
           in if rest \<noteq> [] then
                (bd1\<lparr>poster_ref := Some (last rest)\<rparr>, snd s,
                 [Reply (CurrentPosterDeleted (length rest))])
              else (bd1, snd s, [Reply (Plain ''poster_deleted_none_left'')])))"

definition confirm_poster :: "state \<Rightarrow> result" where
  "confirm_poster s =
     (let bd = fst s; ud = snd s;
          file = (case poster_draft ud of None \<Rightarrow> None | Some d \<Rightarrow> draft_file_id d);
          cap = (case poster_draft ud of None \<Rightarrow> None | Some d \<Rightarrow> draft_caption d);
          link = (case poster_draft ud of None \<Rightarrow> None | Some d \<Rightarrow> draft_ticket_url d)
      in if \<not> truthy file then (bd, ud, [Reply (Plain ''no_photo_start_over'')])
         else
           (let caption_ok = is_valid_caption (if truthy cap then the cap else []);
                link_ok = (\<not> truthy link \<or> is_valid_url (the link))
            in if \<not> caption_ok then (bd, ud, [Reply (Plain ''caption_too_long'')])
               else if \<not> link_ok then (bd, ud, [Reply (Plain ''bad_ticket_link'')])
               else
                 (let p = \<lparr>file_id = file,
                           caption = Some (if truthy cap then the cap else []),
                           ticket_url = link\<rparr>;
                      a = length (heap bd);
                      bd' = bd\<lparr>heap := heap bd @ [p], poster_ref := Some a,
                              all_posters := all_posters bd @ [a]\<rparr>
                  in (bd', ud\<lparr>poster_draft := None\<rparr>,
                      [Reply (PosterPhoto (file_id p) (caption p) (ticket_url p)),
                       Reply (PosterSaved (length (all_posters bd')))]))))"

definition list_posters :: "bot_data \<Rightarrow> msg" where
  "list_posters bd =
     (if all_posters bd = [] then Plain ''poster_list_empty''
      else PosterList
             (map (\<lambda>a. (case poster_ref bd of None \<Rightarrow> False | Some c \<Rightarrow> heap bd ! a = heap bd ! c,
                         short_caption 40 (heap bd ! a),
                         truthy (ticket_url (heap bd ! a))))
                  (all_posters bd)))"

definition with_panel :: "env \<Rightarrow> tg_user \<Rightarrow> state \<Rightarrow> effect list \<Rightarrow> result" where
  \<comment> \<open>the effects so far, then \<open>admin_panel\<close>\<close>
  "with_panel e user s fx =
     (let (bd, fx') = admin_panel e user (fst s) in (bd, snd s, fx @ fx'))"

definition admin_button :: "env \<Rightarrow> tg_user \<Rightarrow> string \<Rightarrow> state \<Rightarrow> result" where
  \<comment> \<open>the branch \<open>data.startswith("admin:")\<close>; \<open>sub\<close> is what follows the colon\<close>
  "admin_button e user sub s0 =
     (let bd = get_admins e (fst s0); ud = snd s0; s = (bd, ud)
      in if uid user \<notin> admins bd then (bd, ud, [Reply (Plain ''not_enough_rights'')])
         else if sub = ''create_poster'' then
           (bd, ud\<lparr>poster_draft := Some \<lparr>step = ''photo'', draft_file_id = None,
                     draft_caption = None, draft_ticket_url = None\<rparr>\<rparr>,
            [Reply (Plain ''draft_step_1_send_photo'')])
         else if sub = ''broadcast_now'' then
           (bd, ud, do_weekly_broadcast e bd @ [Reply (Plain ''poster_sent_to_all'')])
         else if sub = ''set_ticket'' then
           (bd, ud\<lparr>awaiting_ticket := Some True\<rparr>, [Reply (Plain ''send_ticket_link'')])
         else if sub = ''delete_poster'' then admin_delete_poster s
         else if sub = ''broadcast_text'' then
           (bd, ud\<lparr>awaiting_broadcast_text := Some True\<rparr>, [Reply (Plain ''send_broadcast_text'')])
         else if sub = ''stats'' then (bd, ud, [Reply (UsersCount (length (known_users bd)))])
         else if sub = ''back_to_panel'' then with_panel e user (bd, ud\<lparr>poster_draft := None\<rparr>) []
         else if sub = ''confirm_poster'' then confirm_poster s
         else if sub = ''cancel_poster'' then
           (bd, ud\<lparr>poster_draft := None\<rparr>, [Reply (Plain ''poster_cancelled'')])
         else if sub = ''users_count'' then (bd, ud, [Reply (Plain ''user_statistics'')])
         else if sub = ''list_posters'' then (bd, ud, [Reply (list_posters bd)])
         else if sub = ''check_by_username'' then
           (bd, ud\<lparr>awaiting_username_check := Some True, continuous_check_mode := Some True\<rparr>,
            [Reply (Plain ''bulk_check_started'')])
         else if sub = ''stop_check'' then
           with_panel e user
             (bd, ud\<lparr>awaiting_username_check := Some False, continuous_check_mode := Some False\<rparr>)
             [Reply (Plain ''check_stopped'')]
         else if sub = ''refresh'' then with_panel e user s []
         else (bd, ud, []))"

definition catch_all :: "msg \<Rightarrow> result \<Rightarrow> result" where
  \<comment> \<open>\<open>except Exception\<close> around a handler: what was done stays, the message is sent\<close>
  "catch_all m r =
     (case r of (bd, ud, fx) \<Rightarrow>
        if Raised \<in> set fx then (bd, ud, takeWhile (\<lambda>x. x \<noteq> Raised) fx @ [Reply m])
        else (bd, ud, fx))"

definition handle_buttons :: "env \<Rightarrow> tg_user \<Rightarrow> string \<Rightarrow> state \<Rightarrow> result" where
  "handle_buttons e user data s0 =
     (let bd = fst s0; ud = load_user_data_from_db e (uid user) (snd s0); s = (bd, ud)
      in catch_all (Plain ''button_failed'')
        (if data = ''check_all'' then btn_check_all e user s
         else if data = ''link_vk'' then btn_link_vk s
         else if data = ''show_current_poster'' then show_main_menu e user (bd, index_to_last bd ud)
         else if data = ''poster'' then show_main_menu e user (bd, index_to_last bd ud)
         else if data = ''open_admin'' then with_panel e user s []
         else if data = ''back_to_menu'' then
           show_main_menu e user (bd, index_to_last bd (load_user_data_from_db e (uid user) ud))
         else if data = ''poster_prev'' then
           (let i = current_index_or_last bd ud
            in show_main_menu e user
                 (bd, if i > 0 then ud\<lparr>current_poster_index := Some (i - 1)\<rparr> else ud))
         else if startswith data ''delete_poster:'' then btn_delete_poster (drop 14 data) s
         else if data = ''cancel_delete'' then (bd, ud, [Reply (Plain ''delete_cancelled'')])
         else if data = ''poster_next'' then
           (let i = current_index_or_last bd ud
            in show_main_menu e user
                 (bd, if i < int (length (all_posters bd)) - 1
                      then ud\<lparr>current_poster_index := Some (i + 1)\<rparr> else ud))
         else if startswith data ''gender_'' then btn_gender e user (drop 7 data) s
         else if data = ''past_event'' then (bd, ud, [Reply (Plain ''event_is_over'')])
         else if startswith data ''admin:'' then admin_button e user (drop 6 data) s
         else (bd, ud, [])))"

section \<open>Text and photo messages\<close>

definition lookup_report :: "env \<Rightarrow> string \<Rightarrow> int \<Rightarrow> state \<Rightarrow> result" where
  \<comment> \<open>the bulk-lookup branch of \<open>handle_text\<close> once a target id is known\<close>
  "lookup_report e username_display target_user_id s =
     (let bd = fst s; ud = snd s
      in if target_user_id = 0 then (bd, ud, [Reply (Plain ''lookup_no_id'')])
         else
           (let (tg1_ok, tg2_ok) = is_user_subscribed e target_user_id;
                vk = (if pool e then
                        (case get_user_reply e target_user_id of
                           DbOk (Some r) \<Rightarrow> row_vk_id r
                         | _ \<Rightarrow> None)
                      else None);
                vk_status = (if truthy vk \<and> vk_enabled e then is_user_subscribed_vk e (the vk)
                             else None);
                all_ok = lookup_all_ok e tg1_ok tg2_ok vk_status;
                continuous = flag (continuous_check_mode ud)
            in (bd,
                if continuous then ud else ud\<lparr>awaiting_username_check := Some False\<rparr>,
                [Reply (LookupReport username_display target_user_id tg1_ok tg2_ok
                          (vk_status_line e vk vk_status) all_ok continuous)])))"

definition username_check :: "env \<Rightarrow> string \<Rightarrow> state \<Rightarrow> result" where
  \<comment> \<open>the branch \<open>awaiting_username_check\<close> of \<open>handle_text\<close>\<close>
  "username_check e text s =
     (let bd = fst s; ud = snd s;
          input_text = strip text;
          continuous = flag (continuous_check_mode ud);
          ud_done = (if continuous then ud else ud\<lparr>awaiting_username_check := Some False\<rparr>)
      in if isdigit input_text then
           (case py_int input_text of
              None \<Rightarrow> (bd, ud_done, [Reply (LookupFailed continuous)])
            | Some target_user_id \<Rightarrow> lookup_report e (''ID '' @ input_text) target_user_id s)
         else
           (let username = lstrip_char (CHR ''@'') input_text;
                target = (if pool e then
                            (case get_user_by_username_reply e username of
                               DbError \<Rightarrow> None
                             | DbOk (Some r) \<Rightarrow> Some (row_tg_id r)
                             | DbOk None \<Rightarrow> get_chat_reply e (CHR ''@'' # username))
                          else None)
            in case target of
                 None \<Rightarrow> (bd, ud_done, [Reply (LookupNotFound username continuous)])
               | Some target_user_id \<Rightarrow>
                   if target_user_id = 0
                   then (bd, ud_done, [Reply (LookupNotFound username continuous)])
                   else lookup_report e (CHR ''@'' # username) target_user_id s))"

definition ticket_input :: "string \<Rightarrow> state \<Rightarrow> result" where
  \<comment> \<open>the branch \<open>awaiting_ticket\<close>: the current poster dictionary is changed in place,
     or a new one with only the link becomes current\<close>
  "ticket_input text s =
     (let bd = fst s; url = strip text;
          bd' = (case poster_ref bd of
                   Some a \<Rightarrow> bd\<lparr>heap := (heap bd)[a := (heap bd ! a)\<lparr>ticket_url := Some url\<rparr>]\<rparr>
                 | None \<Rightarrow>
                     bd\<lparr>heap := heap bd @ [\<lparr>file_id = None, caption = None, ticket_url = Some url\<rparr>],
                        poster_ref := Some (length (heap bd))\<rparr>)
      in (bd', (snd s)\<lparr>awaiting_ticket := Some False\<rparr>, [Reply (Plain ''ticket_link_saved'')]))"

definition broadcast_text_input :: "string \<Rightarrow> state \<Rightarrow> result" where
  "broadcast_text_input text s =
     (fst s, (snd s)\<lparr>awaiting_broadcast_text := Some False\<rparr>,
      map (\<lambda>u. SendTo u (BroadcastText text)) (known_users (fst s))
      @ [Reply (Plain ''text_broadcast_sent'')])"

definition vk_is_valid :: "string \<Rightarrow> bool" where
  \<comment> \<open>the local \<open>is_valid\<close> of the branch \<open>awaiting_vk\<close>\<close>
  "vk_is_valid vk_input =
     (isdigit vk_input
      \<or> (startswith (lower vk_input) ''id'' \<and> isdigit (drop 2 vk_input))
      \<or> (length vk_input \<ge> 3
         \<and> isalnum (remove_char (CHR ''.'') (remove_char (CHR ''_'') vk_input))))"

definition vk_input_text :: "env \<Rightarrow> tg_user \<Rightarrow> string \<Rightarrow> state \<Rightarrow> result" where
  \<comment> \<open>the branch \<open>awaiting_vk\<close> of \<open>handle_text\<close>\<close>
  "vk_input_text e user text s =
     (let bd = fst s;
          ud = (snd s)\<lparr>awaiting_vk := Some False\<rparr>;
          vk_input = strip text
      in if vk_input = [] then (bd, ud, [Reply (Plain ''vk_empty_input'')])
         else if \<not> vk_is_valid vk_input then (bd, ud, [Reply (Plain ''vk_bad_format'')])
         else
           (let was_relink = truthy (vk_id ud);
                ud' = ud\<lparr>vk_id := Some vk_input\<rparr>;
                bd' = (if pool e \<and> set_vk_id_ok e
                       then bd\<lparr>user_vk_cache := (user_vk_cache bd)(uid user \<mapsto> vk_input)\<rparr>
                       else bd)
            in (bd', ud',
                (if pool e then [DbSetVkId (uid user) vk_input] else [])
                @ [Reply (VkLinked was_relink)])))"

definition handle_text :: "env \<Rightarrow> tg_user \<Rightarrow> string \<Rightarrow> state \<Rightarrow> result" where
  "handle_text e user text s =
     (let bd = fst s; ud = snd s
      in if text = [] then (bd, ud, [])
         else if truthy (registration_step ud) then
           (let (ud', fx) = handle_registration_step e user text ud (the (registration_step ud))
            in (bd, ud', fx))
         else if flag (awaiting_username_check ud) then username_check e text s
         else if flag (awaiting_ticket ud) then ticket_input text s
         else if flag (awaiting_broadcast_text ud) then broadcast_text_input text s
         else if (case poster_draft ud of None \<Rightarrow> False | Some d \<Rightarrow> step d = ''caption'') then
           (bd,
            ud\<lparr>poster_draft :=
                 Some ((the (poster_draft ud))\<lparr>draft_caption := Some text, step := ''link''\<rparr>)\<rparr>,
            [Reply (Plain ''draft_step_3_send_link'')])
         else if (case poster_draft ud of None \<Rightarrow> False | Some d \<Rightarrow> step d = ''link'') then
           (let d = (the (poster_draft ud))\<lparr>draft_ticket_url := Some (strip text), step := ''preview''\<rparr>
            in (bd, ud\<lparr>poster_draft := Some d\<rparr>,
                [Reply (PosterPhoto (draft_file_id d)
                          (Some (if truthy (draft_caption d) then the (draft_caption d) else []))
                          (draft_ticket_url d)),
                 Reply (Plain ''draft_step_4_confirm'')]))
         else if vk_enabled e \<and> flag (awaiting_vk ud) then vk_input_text e user text s
         else (bd, ud, []))"

definition handle_photo :: "string list \<Rightarrow> state \<Rightarrow> result" where
  \<comment> \<open>\<open>photo\<close> holds the file ids of the sizes of the photo, the largest last\<close>
  "handle_photo photo s =
     (case poster_draft (snd s) of
        None \<Rightarrow> (fst s, snd s, [])
      | Some d \<Rightarrow>
          if step d = ''photo'' \<and> photo \<noteq> [] then
            (fst s,
             (snd s)\<lparr>poster_draft := Some (d\<lparr>draft_file_id := Some (last photo), step := ''caption''\<rparr>)\<rparr>,
             [Reply (Plain ''draft_step_2_send_caption'')])
          else (fst s, snd s, []))"

section \<open>Events\<close>

text \<open>
  The handlers registered by \<open>build_app\<close>: the commands \<open>/start\<close>, \<open>/menu\<close>, \<open>/admin\<close>
  and \<open>/id\<close>, a pressed button with its callback data, a text that is not a command,
  and a photo.
\<close>

datatype event = CmdStart | CmdMenu | CmdAdmin | CmdId | Button string | Text string
  | Photo "string list"

definition handle :: "env \<Rightarrow> tg_user \<Rightarrow> event \<Rightarrow> state \<Rightarrow> result" where
  "handle e user ev s =
     (case ev of
        CmdStart \<Rightarrow> start e user s
      | CmdMenu \<Rightarrow> menu e user s
      | CmdAdmin \<Rightarrow> with_panel e user s []
      | CmdId \<Rightarrow> (fst s, snd s, [Reply (YourId (uid user))])
      | Button data \<Rightarrow> handle_buttons e user data s
      | Text text \<Rightarrow> handle_text e user text s
      | Photo photo \<Rightarrow> handle_photo photo s)"

section \<open>Reading the reports\<close>



definition lookup_mode :: "user_data \<Rightarrow> bool option \<times> bool option" where
  \<comment> \<open>the two keys of the bulk lookup: awaiting input, continuous\<close>
  "lookup_mode ud = (awaiting_username_check ud, continuous_check_mode ud)"

subsection \<open>The aggregate rule in the words of the specification\<close>






section \<open>Sample values\<close>

definition sample_env :: env where
  \<comment> \<open>no database, VK disabled, user 1 is the administrator, every outside call fails\<close>
  "sample_env =
     \<lparr>vk_enabled = False, admin_user_id = 1, admin_user_id_2 = 0, admin_user_id_3 = 0,
      pool = False, get_user_reply = (\<lambda>_. DbError),
      get_user_by_username_reply = (\<lambda>_. DbError), fetch_name_reply = DbError,
      set_vk_id_ok = False, get_chat_member_reply = (\<lambda>_ _. None),
      get_chat_reply = (\<lambda>_. None), vk_group_reply = HttpRaise,
      vk_resolve_reply = (\<lambda>_. HttpRaise), vk_is_member_reply = (\<lambda>_ _. HttpRaise),
      vk_wall_post_ok = False\<rparr>"

definition sample_user :: tg_user where
  "sample_user = \<lparr>uid = 1, username = Some ''admin''\<rparr>"

definition sample_poster :: "string \<Rightarrow> poster" where
  "sample_poster c = \<lparr>file_id = Some ''photo'', caption = Some c, ticket_url = None\<rparr>"

definition sample_bot_data :: bot_data where
  \<comment> \<open>three posters, the last one current\<close>
  "sample_bot_data =
     \<lparr>poster_ref = Some 2, all_posters = [0, 1, 2],
      heap = [sample_poster ''first'', sample_poster ''second'', sample_poster ''third''],
      known_users = [1], admins = {1}, user_vk_cache = Map.empty\<rparr>"


definition sample_env_db :: "db_row option \<Rightarrow> env" where
  \<comment> \<open>as \<open>sample_env\<close>, with a database that answers every \<open>get_user\<close> with the given row\<close>
  "sample_env_db r = sample_env\<lparr>pool := True, get_user_reply := (\<lambda>_. DbOk r)\<rparr>"

definition sample_row :: "string option \<Rightarrow> string option \<Rightarrow> int option \<Rightarrow> db_row" where
  "sample_row n g a =
     \<lparr>row_tg_id = 1, row_name = n, row_gender = g, row_age = a, row_vk_id = None\<rparr>"

definition run :: "env \<Rightarrow> tg_user \<Rightarrow> event list \<Rightarrow> state \<Rightarrow> state" where
  \<comment> \<open>the state after the events of one user, handled in order\<close>
  "run e user evs s = foldl (\<lambda>s ev. let r = handle e user ev s in (fst r, fst (snd r))) s evs"

definition reengage_sends :: "int \<Rightarrow> effect list \<Rightarrow> nat" where
  \<comment> \<open>how many re-engagement messages the effects send to user \<open>u\<close>\<close>
  "reengage_sends u fx = length (filter (\<lambda>x. x = SendTo u (Plain ''reengage_text'')) fx)"



section \<open>Properties\<close>

lemma clamp_poster_index_bounds:
  "0 < n \<Longrightarrow> 0 \<le> snd (clamp_poster_index n ud) \<and> snd (clamp_poster_index n ud) < int n"
  by (auto simp: clamp_poster_index_def Let_def split: option.splits)

subsection \<open>Helper facts\<close>

lemma py_index_in_range:
  "0 \<le> i \<Longrightarrow> i < int (length xs) \<Longrightarrow> py_index xs i = Some (xs ! nat i)"
  by (simp add: py_index_def)







subsection \<open>The poster list\<close>





lemmas str_defs = py_int_def strip_def py_isspace_def cp_def int_unsigned_def is_dec_def





lemma load_poster_draft [simp]:
  "poster_draft (load_user_data_from_db e u ud) = poster_draft ud"
  by (simp add: load_user_data_from_db_def Let_def split: db_reply.splits option.splits)

lemma get_admins_posters [simp]:
  "all_posters (get_admins e bd) = all_posters bd"
  "heap (get_admins e bd) = heap bd"
  "poster_ref (get_admins e bd) = poster_ref bd"
  by (simp_all add: get_admins_def)

subsection \<open>The poster wizard\<close>



lemma py_int_examples:
  "py_int (strip ''abc'') = None" "py_int (strip ''13'') = Some 13"
  "py_int (strip ''101'') = Some 101" "py_int (strip ''14'') = Some 14"
  "py_int (strip ''100'') = Some 100"
  by (simp_all add: str_defs)

subsection \<open>Registration\<close>

text \<open>
  C4. A text sent at the age step that \<open>int()\<close> refuses is answered with the format
  error, one that parses outside 14..100 with the range error, and in both cases nothing
  changes: the step stays \<open>age\<close>. Any other text stores the age, sets the
  registered flag, clears the step and is answered with the completion message.
  \<open>abc\<close> does not parse; \<open>13\<close> and \<open>101\<close> parse outside the range; \<open>14\<close> and
  \<open>100\<close> parse inside it.
\<close>

theorem age_step_validation:
  assumes "registration_step ud = Some ''age''" and "text \<noteq> []"
  shows "let r = handle_text e user text (bd, ud); ud' = fst (snd r)
         in (case py_int (strip text) of
               None \<Rightarrow> r = (bd, ud, [Reply (Plain ''age_bad_format'')])
             | Some a \<Rightarrow>
                 if a < 14 \<or> a > 100 then r = (bd, ud, [Reply (Plain ''age_out_of_range'')])
                 else age ud' = Some a \<and> registered ud' = Some True
                    \<and> registration_step ud' = None
                    \<and> (\<exists>nm g. last (snd (snd r)) = Reply (RegistrationDone nm g a)))
          \<and> py_int (strip ''abc'') = None \<and> py_int (strip ''13'') = Some 13
          \<and> py_int (strip ''101'') = Some 101 \<and> py_int (strip ''14'') = Some 14
          \<and> py_int (strip ''100'') = Some 100"
  using assms py_int_examples
  by (simp add: handle_text_def handle_registration_step_def Let_def truthy_def
      split: option.splits db_reply.splits)

theorem age_step_validation_witness:
  "registration_step (empty_user_data\<lparr>registration_step := Some ''age''\<rparr>) = Some ''age''
   \<and> handle_text sample_env sample_user ''13''
        (sample_bot_data, empty_user_data\<lparr>registration_step := Some ''age''\<rparr>)
      = (sample_bot_data, empty_user_data\<lparr>registration_step := Some ''age''\<rparr>,
         [Reply (Plain ''age_out_of_range'')])
   \<and> handle_text sample_env sample_user ''101''
        (sample_bot_data, empty_user_data\<lparr>registration_step := Some ''age''\<rparr>)
      = (sample_bot_data, empty_user_data\<lparr>registration_step := Some ''age''\<rparr>,
         [Reply (Plain ''age_out_of_range'')])
   \<and> handle_text sample_env sample_user ''abc''
        (sample_bot_data, empty_user_data\<lparr>registration_step := Some ''age''\<rparr>)
      = (sample_bot_data, empty_user_data\<lparr>registration_step := Some ''age''\<rparr>,
         [Reply (Plain ''age_bad_format'')])
   \<and> registration_step (fst (snd (handle_text sample_env sample_user ''14''
        (sample_bot_data, empty_user_data\<lparr>registration_step := Some ''age''\<rparr>)))) = None
   \<and> age (fst (snd (handle_text sample_env sample_user ''100''
        (sample_bot_data, empty_user_data\<lparr>registration_step := Some ''age''\<rparr>)))) = Some 100"
proof -
  let ?ud = "empty_user_data\<lparr>registration_step := Some ''age''\<rparr>"
  have s: "registration_step ?ud = Some ''age''" by simp
  note t = age_step_validation[OF s, of _ sample_env sample_user sample_bot_data]
  show ?thesis
    using t[of "''13''"] t[of "''101''"] t[of "''abc''"] t[of "''14''"] t[of "''100''"]
    by (simp add: Let_def py_int_examples)
qed

lemma clamp_poster_index_ud:
  "fst (clamp_poster_index n ud) = ud
   \<or> fst (clamp_poster_index n ud)
       = ud\<lparr>current_poster_index := Some (snd (clamp_poster_index n ud))\<rparr>"
proof (cases "current_poster_index ud")
  case None
  then show ?thesis by (simp add: clamp_poster_index_def Let_def)
next
  case (Some j)
  then show ?thesis by (simp add: clamp_poster_index_def Let_def)
qed

lemma show_main_menu_shape:
  "\<exists>bd' ud' fx. show_main_menu e user s = (bd', ud', fx)
     \<and> (ud' = load_user_data_from_db e (uid user) (snd s)
        \<or> (\<exists>i. ud' = (load_user_data_from_db e (uid user) (snd s))\<lparr>current_poster_index := Some i\<rparr>))
     \<and> fx \<noteq> [Reply (Plain ''need_registration'')]"
proof -
  define ud0 where "ud0 = load_user_data_from_db e (uid user) (snd s)"
  define bd1 where
    "bd1 = (case poster_ref (fst s) of
              None \<Rightarrow> fst s
            | Some a \<Rightarrow> if \<not> poster_in_list (fst s) a
                       then (fst s)\<lparr>all_posters := all_posters (fst s) @ [a]\<rparr> else fst s)"
  show ?thesis
  proof (cases "all_posters bd1 = []")
    case True
    then show ?thesis
      by (simp add: show_main_menu_def Let_def bd1_def[symmetric] ud0_def[symmetric])
  next
    case False
    then have n: "0 < length (all_posters bd1)" by simp
    obtain ud1 i where c: "clamp_poster_index (length (all_posters bd1)) ud0 = (ud1, i)"
      by (cases "clamp_poster_index (length (all_posters bd1)) ud0")
    from clamp_poster_index_bounds[OF n, of ud0] c
    have "0 \<le> i" "i < int (length (all_posters bd1))" by simp_all
    then have p: "py_index (all_posters bd1) i = Some (all_posters bd1 ! nat i)"
      by (rule py_index_in_range)
    from clamp_poster_index_ud[of "length (all_posters bd1)" ud0] c
    have u: "ud1 = ud0 \<or> ud1 = ud0\<lparr>current_poster_index := Some i\<rparr>" by simp
    define q where "q = heap bd1 ! (all_posters bd1 ! nat i)"
    have "\<exists>fx. show_main_menu e user s = (get_admins e bd1, ud1, fx)
       \<and> fx \<noteq> [Reply (Plain ''need_registration'')]"
      using False c p
      by (cases "file_id q")
         (simp_all add: show_main_menu_def Let_def bd1_def[symmetric] ud0_def[symmetric]
            q_def[symmetric])
    then obtain fx where
      m: "show_main_menu e user s = (get_admins e bd1, ud1, fx)"
         "fx \<noteq> [Reply (Plain ''need_registration'')]"
      by blast
    from u show ?thesis
    proof
      assume "ud1 = ud0"
      with m show ?thesis unfolding ud0_def by blast
    next
      assume "ud1 = ud0\<lparr>current_poster_index := Some i\<rparr>"
      with m show ?thesis unfolding ud0_def by blast
    qed
  qed
qed

lemma show_main_menu_effects:
  "snd (snd (show_main_menu e user s)) \<noteq> [Reply (Plain ''need_registration'')]"
proof -
  from show_main_menu_shape[of e user s] obtain bd' ud' fx where
    "show_main_menu e user s = (bd', ud', fx)"
    "fx \<noteq> [Reply (Plain ''need_registration'')]"
    by blast
  then show ?thesis by simp
qed

lemma start_registered_reply:
  "snd (snd (start e user (bd, ud)))
     = (if pool e then [DbUpsert (uid user) None None None None (username user)] else [])
       @ [Reply (Plain ''already_registered'')]
   \<longleftrightarrow> is_registered (load_user_data_from_db e (uid user) ud)"
  by (simp add: start_def Let_def)

lemma menu_registered_reply:
  "snd (snd (menu e user (bd, ud))) = [Reply (Plain ''need_registration'')]
   \<longleftrightarrow> \<not> is_registered (load_user_data_from_db e (uid user) ud)"
  by (simp add: menu_def Let_def show_main_menu_effects)

lemma load_row:
  "pool e \<Longrightarrow> get_user_reply e u = DbOk (Some r) \<Longrightarrow>
   name (load_user_data_from_db e u ud) = row_name r
   \<and> gender (load_user_data_from_db e u ud) = row_gender r
   \<and> age (load_user_data_from_db e u ud) = row_age r
   \<and> registered (load_user_data_from_db e u ud)
       = Some (truthy (row_name r) \<and> truthy (row_gender r) \<and> row_age r \<noteq> None)"
  by (simp add: load_user_data_from_db_def Let_def)

lemma row_checks_complete:
  "row_checks r \<Longrightarrow>
   (truthy (row_name r) \<and> truthy (row_gender r) \<and> row_age r \<noteq> None)
   = (truthy (row_name r) \<and> (row_gender r = Some ''male'' \<or> row_gender r = Some ''female'')
      \<and> (\<exists>a. row_age r = Some a \<and> 14 \<le> a \<and> a \<le> 100))"
  by (cases "row_gender r"; cases "row_age r") (auto simp: row_checks_def truthy_def)

lemma load_no_row:
  "pool e \<Longrightarrow> get_user_reply e u = DbOk None \<Longrightarrow>
   registered (load_user_data_from_db e u ud) = Some False
   \<and> name (load_user_data_from_db e u ud) = None
   \<and> gender (load_user_data_from_db e u ud) = None
   \<and> age (load_user_data_from_db e u ud) = None"
  by (simp add: load_user_data_from_db_def Let_def)

lemma load_unavailable:
  "\<not> pool e \<or> get_user_reply e u = DbError \<Longrightarrow> load_user_data_from_db e u ud = ud"
  by (cases "pool e") (simp_all add: load_user_data_from_db_def)
lemmas sample_defs = sample_env_def sample_env_db_def sample_row_def sample_user_def
  sample_bot_data_def sample_poster_def empty_user_data_def

text \<open>
  C3. \<open>/start\<close> loads the stored fields and, for a user who is not registered, resumes
  at the first missing one: without a name it asks for the name (the welcome text when
  nothing at all is set, the continuation text otherwise); with a name and no gender it
  asks for the gender, not the name; with name and gender and no age it asks only for
  the age. The three fields are left as loaded.
\<close>

theorem start_resumes_at_first_missing_field:
  "let ud0 = load_user_data_from_db e (uid user) ud;
       r = start e user (bd, ud); ud' = fst (snd r); fx = snd (snd r);
       upsert = (if pool e then [DbUpsert (uid user) None None None None (username user)]
                 else [])
   in name ud' = name ud0 \<and> gender ud' = gender ud0 \<and> age ud' = age ud0
    \<and> (\<not> truthy (name ud0) \<and> \<not> truthy (gender ud0) \<and> age ud0 = None \<longrightarrow>
          registration_step ud' = Some ''name''
          \<and> fx = upsert @ [Reply (Plain ''welcome_ask_name'')])
    \<and> (\<not> truthy (name ud0) \<and> (truthy (gender ud0) \<or> age ud0 \<noteq> None) \<longrightarrow>
          registration_step ud' = Some ''name''
          \<and> fx = upsert @ [Reply (Plain ''continue_ask_name'')])
    \<and> (truthy (name ud0) \<and> \<not> truthy (gender ud0) \<longrightarrow>
          registration_step ud' = Some ''gender''
          \<and> fx = upsert @ [Reply (AskGender (name ud0))])
    \<and> (truthy (name ud0) \<and> truthy (gender ud0) \<and> age ud0 = None \<longrightarrow>
          registration_step ud' = Some ''age''
          \<and> fx = upsert @ [Reply (Plain ''last_step_ask_age'')])"
  by (simp add: start_def Let_def is_registered_def has_partial_data_def)

theorem start_resumes_at_first_missing_field_witness:
  "registration_step (fst (snd (start (sample_env_db (Some (sample_row (Some ''Ann'') None None)))
      sample_user (sample_bot_data, empty_user_data)))) = Some ''gender''
   \<and> snd (snd (start (sample_env_db (Some (sample_row (Some ''Ann'') None None)))
      sample_user (sample_bot_data, empty_user_data)))
     = [DbUpsert 1 None None None None (Some ''admin''), Reply (AskGender (Some ''Ann''))]
   \<and> registration_step (fst (snd (start
      (sample_env_db (Some (sample_row (Some ''Ann'') (Some ''female'') None)))
      sample_user (sample_bot_data, empty_user_data)))) = Some ''age''
   \<and> registration_step (fst (snd (start (sample_env_db (Some (sample_row None None None)))
      sample_user (sample_bot_data, empty_user_data)))) = Some ''name''"
  using start_resumes_at_first_missing_field[of
      "sample_env_db (Some (sample_row (Some ''Ann'') None None))" sample_user
      empty_user_data sample_bot_data]
    start_resumes_at_first_missing_field[of
      "sample_env_db (Some (sample_row (Some ''Ann'') (Some ''female'') None))" sample_user
      empty_user_data sample_bot_data]
    start_resumes_at_first_missing_field[of
      "sample_env_db (Some (sample_row None None None))" sample_user
      empty_user_data sample_bot_data]
  by (simp add: Let_def sample_defs load_user_data_from_db_def truthy_def)

text \<open>
  C1, as stated, fails: the age step sets the flag when it accepts an age, whatever the
  name. From an empty session without a database, the gender button followed by the age
  \<open>20\<close> leaves the flag true with no name, and a following \<open>/start\<close> (which cannot
  reload) leaves it so.
\<close>

theorem registered_flag_counterexample:
  "registered (snd (run sample_env sample_user [Button ''gender_male'', Text ''20'']
      (sample_bot_data, empty_user_data))) = Some True
   \<and> name (snd (run sample_env sample_user [Button ''gender_male'', Text ''20'']
      (sample_bot_data, empty_user_data))) = None
   \<and> registered (snd (run sample_env sample_user [Button ''gender_male'', Text ''20'', CmdStart]
      (sample_bot_data, empty_user_data))) = Some True
   \<and> name (snd (run sample_env sample_user [Button ''gender_male'', Text ''20'', CmdStart]
      (sample_bot_data, empty_user_data))) = None"
  by (simp add: run_def handle_def handle_buttons_def handle_text_def btn_gender_def
      handle_registration_step_def start_def load_user_data_from_db_def catch_all_def
      startswith_def sample_defs Let_def truthy_def flag_def str_defs gender_text_def
      is_registered_def has_partial_data_def get_known_users_add_def name_not_given_def)

text \<open>
  C1, amended. Loading from the database, when it answers with the user's row, copies
  name, gender and age from the row and sets the flag to: name and gender non-empty and
  age present; for a row that meets the CHECK constraints of the schema that is: name
  non-empty, gender male or female, age in 14..100. When the user has no row the flag is
  set false and the three fields are cleared; when there is no database or the query
  fails nothing changes. \<open>/start\<close> answers "already registered", and \<open>/menu\<close> does not
  answer "register first", exactly when after loading the flag is true, name and gender
  are non-empty and the age is present.
\<close>

theorem registered_flag_recomputed:
  "let ud' = load_user_data_from_db e u ud
   in (pool e \<and> get_user_reply e u = DbOk (Some r) \<longrightarrow>
         name ud' = row_name r \<and> gender ud' = row_gender r \<and> age ud' = row_age r
         \<and> registered ud' = Some (truthy (name ud') \<and> truthy (gender ud') \<and> age ud' \<noteq> None)
         \<and> (row_checks r \<longrightarrow>
              (registered ud' = Some True \<longleftrightarrow>
                 truthy (name ud') \<and> (gender ud' = Some ''male'' \<or> gender ud' = Some ''female'')
                 \<and> (\<exists>a. age ud' = Some a \<and> 14 \<le> a \<and> a \<le> 100))))
    \<and> (pool e \<and> get_user_reply e u = DbOk None \<longrightarrow>
         registered ud' = Some False \<and> name ud' = None \<and> gender ud' = None \<and> age ud' = None)
    \<and> (\<not> pool e \<or> get_user_reply e u = DbError \<longrightarrow> ud' = ud)
    \<and> (snd (snd (start e user (bd, ud)))
          = (if pool e then [DbUpsert (uid user) None None None None (username user)] else [])
            @ [Reply (Plain ''already_registered'')]
        \<longleftrightarrow> registered (load_user_data_from_db e (uid user) ud) = Some True
            \<and> truthy (name (load_user_data_from_db e (uid user) ud))
            \<and> truthy (gender (load_user_data_from_db e (uid user) ud))
            \<and> age (load_user_data_from_db e (uid user) ud) \<noteq> None)
    \<and> (snd (snd (menu e user (bd, ud))) = [Reply (Plain ''need_registration'')]
        \<longleftrightarrow> \<not> (registered (load_user_data_from_db e (uid user) ud) = Some True
            \<and> truthy (name (load_user_data_from_db e (uid user) ud))
            \<and> truthy (gender (load_user_data_from_db e (uid user) ud))
            \<and> age (load_user_data_from_db e (uid user) ud) \<noteq> None))"
proof -
  let ?ud = "load_user_data_from_db e u ud"
  have a: "pool e \<and> get_user_reply e u = DbOk (Some r) \<longrightarrow>
         name ?ud = row_name r \<and> gender ?ud = row_gender r \<and> age ?ud = row_age r
         \<and> registered ?ud = Some (truthy (name ?ud) \<and> truthy (gender ?ud) \<and> age ?ud \<noteq> None)
         \<and> (row_checks r \<longrightarrow>
              (registered ?ud = Some True \<longleftrightarrow>
                 truthy (name ?ud) \<and> (gender ?ud = Some ''male'' \<or> gender ?ud = Some ''female'')
                 \<and> (\<exists>a. age ?ud = Some a \<and> 14 \<le> a \<and> a \<le> 100)))"
  proof (intro impI, elim conjE)
    assume p: "pool e" and g: "get_user_reply e u = DbOk (Some r)"
    note l = load_row[OF p g, of ud]
    show "name ?ud = row_name r \<and> gender ?ud = row_gender r \<and> age ?ud = row_age r
         \<and> registered ?ud = Some (truthy (name ?ud) \<and> truthy (gender ?ud) \<and> age ?ud \<noteq> None)
         \<and> (row_checks r \<longrightarrow>
              (registered ?ud = Some True \<longleftrightarrow>
                 truthy (name ?ud) \<and> (gender ?ud = Some ''male'' \<or> gender ?ud = Some ''female'')
                 \<and> (\<exists>a. age ?ud = Some a \<and> 14 \<le> a \<and> a \<le> 100)))"
      using l row_checks_complete[of r] by simp
  qed
  have b: "pool e \<and> get_user_reply e u = DbOk None \<longrightarrow>
         registered ?ud = Some False \<and> name ?ud = None \<and> gender ?ud = None \<and> age ?ud = None"
    using load_no_row[of e u ud] by blast
  have c: "\<not> pool e \<or> get_user_reply e u = DbError \<longrightarrow> ?ud = ud"
    using load_unavailable[of e u ud] by blast
  have d: "snd (snd (start e user (bd, ud)))
          = (if pool e then [DbUpsert (uid user) None None None None (username user)] else [])
            @ [Reply (Plain ''already_registered'')]
        \<longleftrightarrow> registered (load_user_data_from_db e (uid user) ud) = Some True
            \<and> truthy (name (load_user_data_from_db e (uid user) ud))
            \<and> truthy (gender (load_user_data_from_db e (uid user) ud))
            \<and> age (load_user_data_from_db e (uid user) ud) \<noteq> None"
    using start_registered_reply[of e user bd ud] unfolding is_registered_def .
  have f: "snd (snd (menu e user (bd, ud))) = [Reply (Plain ''need_registration'')]
        \<longleftrightarrow> \<not> (registered (load_user_data_from_db e (uid user) ud) = Some True
            \<and> truthy (name (load_user_data_from_db e (uid user) ud))
            \<and> truthy (gender (load_user_data_from_db e (uid user) ud))
            \<and> age (load_user_data_from_db e (uid user) ud) \<noteq> None)"
    using menu_registered_reply[of e user bd ud] unfolding is_registered_def .
  show ?thesis
    unfolding Let_def
    by (intro conjI a b c d f)
qed

theorem registered_flag_recomputed_witness:
  "pool (sample_env_db (Some (sample_row (Some ''Ann'') (Some ''female'') (Some 30))))
   \<and> row_checks (sample_row (Some ''Ann'') (Some ''female'') (Some 30))
   \<and> registered (load_user_data_from_db
        (sample_env_db (Some (sample_row (Some ''Ann'') (Some ''female'') (Some 30)))) 1
        empty_user_data) = Some True
   \<and> registered (load_user_data_from_db
        (sample_env_db (Some (sample_row (Some ''Ann'') None (Some 30)))) 1
        empty_user_data) = Some False
   \<and> registered (load_user_data_from_db (sample_env_db None) 1
        (empty_user_data\<lparr>registered := Some True\<rparr>)) = Some False
   \<and> load_user_data_from_db sample_env 1 (empty_user_data\<lparr>registered := Some True\<rparr>)
      = empty_user_data\<lparr>registered := Some True\<rparr>"
  using registered_flag_recomputed[of
      "sample_env_db (Some (sample_row (Some ''Ann'') (Some ''female'') (Some 30)))" 1
      empty_user_data "sample_row (Some ''Ann'') (Some ''female'') (Some 30)"
      sample_user sample_bot_data]
    registered_flag_recomputed[of
      "sample_env_db (Some (sample_row (Some ''Ann'') None (Some 30)))" 1
      empty_user_data "sample_row (Some ''Ann'') None (Some 30)" sample_user sample_bot_data]
    registered_flag_recomputed[of "sample_env_db None" 1
      "empty_user_data\<lparr>registered := Some True\<rparr>" "sample_row None None None"
      sample_user sample_bot_data]
    registered_flag_recomputed[of sample_env 1
      "empty_user_data\<lparr>registered := Some True\<rparr>" "sample_row None None None"
      sample_user sample_bot_data]
  by (simp add: Let_def sample_env_db_def sample_env_def sample_row_def row_checks_def
      truthy_def)

subsection \<open>The weekly pass\<close>

lemma reengage_sends_append [simp]:
  "reengage_sends u (fx @ fx') = reengage_sends u fx + reengage_sends u fx'"
  by (simp add: reengage_sends_def)





lemma get_known_users_add_distinct:
  "distinct (known_users bd) \<Longrightarrow> distinct (known_users (get_known_users_add u bd))"
  by (simp add: get_known_users_add_def)




subsection \<open>Linking a VK profile\<close>





subsection \<open>Subscription verdicts\<close>

lemma load_vk_enabled_update [simp]:
  "load_user_data_from_db (e\<lparr>vk_enabled := b\<rparr>) u ud = load_user_data_from_db e u ud"
  by (simp add: load_user_data_from_db_def)

lemma is_user_subscribed_vk_update [simp]:
  "is_user_subscribed (e\<lparr>vk_enabled := b\<rparr>) u = is_user_subscribed e u"
  by (simp add: is_user_subscribed_def channel_ok_def)






lemma channel_ok_vk_update [simp]:
  "channel_ok (e\<lparr>vk_enabled := b\<rparr>) k u = channel_ok e k u"
  by (simp add: channel_ok_def)






subsection \<open>The bulk lookup mode\<close>

lemma lookup_mode_load [simp]:
  "lookup_mode (load_user_data_from_db e u ud) = lookup_mode ud"
  by (simp add: load_user_data_from_db_def lookup_mode_def Let_def
      split: db_reply.splits option.splits)

lemma load_lookup_flags [simp]:
  "awaiting_username_check (load_user_data_from_db e u ud) = awaiting_username_check ud"
  "continuous_check_mode (load_user_data_from_db e u ud) = continuous_check_mode ud"
  using lookup_mode_load[of e u ud] by (simp_all add: lookup_mode_def)

lemma lookup_mode_index [simp]:
  "lookup_mode (ud\<lparr>current_poster_index := x\<rparr>) = lookup_mode ud"
  by (simp add: lookup_mode_def)

lemma show_main_menu_mode [simp]:
  "lookup_mode (fst (snd (show_main_menu e user s))) = lookup_mode (snd s)"
proof -
  from show_main_menu_shape[of e user s] obtain bd' ud' fx where
    "show_main_menu e user s = (bd', ud', fx)"
    "ud' = load_user_data_from_db e (uid user) (snd s)
      \<or> (\<exists>i. ud' = (load_user_data_from_db e (uid user) (snd s))\<lparr>current_poster_index := Some i\<rparr>)"
    by blast
  then show ?thesis by auto
qed

lemma with_panel_ud [simp]: "fst (snd (with_panel e user s fx)) = snd s"
  by (simp add: with_panel_def split: prod.splits)

lemma catch_all_ud [simp]: "fst (snd (catch_all m r)) = fst (snd r)"
  by (cases r) (simp add: catch_all_def)

lemma index_to_last_mode [simp]: "lookup_mode (index_to_last bd ud) = lookup_mode ud"
  by (simp add: index_to_last_def)

lemma btn_check_all_ud [simp]: "fst (snd (btn_check_all e user s)) = snd s"
  by (simp add: btn_check_all_def Let_def split: prod.splits)

lemma btn_link_vk_mode [simp]: "lookup_mode (fst (snd (btn_link_vk s))) = lookup_mode (snd s)"
  by (simp add: btn_link_vk_def lookup_mode_def)

lemma btn_delete_poster_ud [simp]: "fst (snd (btn_delete_poster arg s)) = snd s"
  by (simp add: btn_delete_poster_def Let_def split: option.splits)

lemma btn_gender_mode [simp]:
  "lookup_mode (fst (snd (btn_gender e user g s))) = lookup_mode (snd s)"
  by (simp add: btn_gender_def lookup_mode_def)

lemma admin_delete_poster_ud [simp]: "fst (snd (admin_delete_poster s)) = snd s"
  by (simp add: admin_delete_poster_def Let_def split: option.splits)

lemma confirm_poster_mode [simp]:
  "lookup_mode (fst (snd (confirm_poster s))) = lookup_mode (snd s)"
  by (simp add: confirm_poster_def Let_def lookup_mode_def)

lemma admin_button_mode:
  assumes "lookup_mode ud = (Some True, Some True)"
    and "\<not> (sub = ''stop_check'' \<and> uid user \<in> admins (get_admins e bd))"
  shows "lookup_mode (fst (snd (admin_button e user sub (bd, ud)))) = lookup_mode ud"
proof (cases "uid user \<in> admins (get_admins e bd)")
  case False
  then show ?thesis by (simp add: admin_button_def Let_def)
next
  case True
  with assms(2) have "sub \<noteq> ''stop_check''" by simp
  with True assms(1) show ?thesis
    by (simp add: admin_button_def Let_def) (simp add: lookup_mode_def)
qed

lemma admin_data:
  assumes "startswith data ''admin:''" and "drop 6 data = sub"
  shows "data = ''admin:'' @ sub"
proof -
  have l: "length ''admin:'' = 6" by simp
  have "take 6 data = ''admin:''"
    using assms(1) unfolding startswith_def l .
  then have "take 6 data @ drop 6 data = ''admin:'' @ sub"
    using assms(2) by (simp only:)
  then show ?thesis
    by (simp only: append_take_drop_id)
qed

lemma handle_buttons_mode:
  assumes "lookup_mode ud = (Some True, Some True)"
    and "\<not> (data = ''admin:stop_check'' \<and> uid user \<in> admins (get_admins e bd))"
  shows "lookup_mode (fst (snd (handle_buttons e user data (bd, ud)))) = lookup_mode ud"
proof (cases "startswith data ''admin:''")
  case True
  have "\<not> (drop 6 data = ''stop_check'' \<and> uid user \<in> admins (get_admins e bd))"
    using assms(2) admin_data[OF True, of "''stop_check''"] by auto
  then have "lookup_mode (fst (snd (admin_button e user (drop 6 data)
       (bd, load_user_data_from_db e (uid user) ud)))) = lookup_mode ud"
    using admin_button_mode[of "load_user_data_from_db e (uid user) ud" "drop 6 data" user e bd]
      assms(1) by simp
  then show ?thesis
    by (simp add: handle_buttons_def Let_def)
next
  case False
  then show ?thesis
    by (simp add: handle_buttons_def Let_def)
qed

lemma handle_registration_step_mode [simp]:
  "lookup_mode (fst (handle_registration_step e user text ud rs)) = lookup_mode ud"
  by (simp add: handle_registration_step_def Let_def lookup_mode_def
      split: option.splits db_reply.splits)

lemma lookup_report_continuous:
  "flag (continuous_check_mode ud) \<Longrightarrow>
   fst (lookup_report e d t (bd, ud)) = bd \<and> fst (snd (lookup_report e d t (bd, ud))) = ud
   \<and> length (snd (snd (lookup_report e d t (bd, ud)))) = 1"
  by (simp add: lookup_report_def Let_def split: prod.splits)

lemma username_check_continuous:
  "flag (continuous_check_mode ud) \<Longrightarrow>
   fst (username_check e text (bd, ud)) = bd \<and> fst (snd (username_check e text (bd, ud))) = ud
   \<and> length (snd (snd (username_check e text (bd, ud)))) = 1"
  by (simp add: username_check_def Let_def lookup_report_continuous split: option.splits)

lemma lookup_report_single:
  "\<not> flag (continuous_check_mode ud) \<Longrightarrow>
   awaiting_username_check (fst (snd (lookup_report e d t (bd, ud)))) = Some False
   \<or> snd (snd (lookup_report e d t (bd, ud))) = [Reply (Plain ''lookup_no_id'')]"
  by (simp add: lookup_report_def Let_def split: prod.splits)

lemma username_check_single:
  "\<not> flag (continuous_check_mode ud) \<Longrightarrow>
   awaiting_username_check (fst (snd (username_check e text (bd, ud)))) = Some False
   \<or> snd (snd (username_check e text (bd, ud))) = [Reply (Plain ''lookup_no_id'')]"
  using lookup_report_single[of ud e _ _ bd]
  by (simp add: username_check_def Let_def split: option.splits)

lemma handle_text_mode:
  assumes "lookup_mode ud = (Some True, Some True)"
  shows "lookup_mode (fst (snd (handle_text e user text (bd, ud)))) = lookup_mode ud"
proof -
  from assms have a: "flag (awaiting_username_check ud)"
    and c: "flag (continuous_check_mode ud)"
    by (simp_all add: lookup_mode_def flag_def)
  note u = username_check_continuous[OF c, of e "text" bd]
  show ?thesis
  proof (cases "text = [] \<or> truthy (registration_step ud)")
    case True
    obtain ud' fx where
      r: "handle_registration_step e user text ud (the (registration_step ud)) = (ud', fx)"
      by (cases "handle_registration_step e user text ud (the (registration_step ud))")
    from handle_registration_step_mode[of e user "text" ud "the (registration_step ud)"] r
    have "lookup_mode ud' = lookup_mode ud" by simp
    with True r show ?thesis
      by (auto simp: handle_text_def Let_def)
  next
    case False
    with a u show ?thesis
      by (simp add: handle_text_def Let_def)
  qed
qed

lemma handle_photo_mode [simp]:
  "lookup_mode (fst (snd (handle_photo photo s))) = lookup_mode (snd s)"
  by (simp add: handle_photo_def lookup_mode_def split: option.splits)

lemma start_mode:
  "\<not> is_registered (load_user_data_from_db e (uid user) ud) \<Longrightarrow>
   lookup_mode (fst (snd (start e user (bd, ud)))) = lookup_mode ud"
  by (simp add: start_def Let_def lookup_mode_def)

lemma start_registered_clears:
  "is_registered (load_user_data_from_db e (uid user) ud) \<Longrightarrow>
   awaiting_username_check (fst (snd (start e user (bd, ud)))) = None"
  by (simp add: start_def Let_def)

lemma menu_mode [simp]: "lookup_mode (fst (snd (menu e user (bd, ud)))) = lookup_mode ud"
  by (simp add: menu_def Let_def)

lemma stop_check_clears:
  "uid user \<in> admins (get_admins e bd) \<Longrightarrow>
   lookup_mode (fst (snd (handle_buttons e user ''admin:stop_check'' (bd, ud))))
     = (Some False, Some False)"
  by (simp add: handle_buttons_def Let_def startswith_def admin_button_def lookup_mode_def)

text \<open>
  C5, as stated, fails: \<open>/start\<close> also clears the flag. A user registers (no database),
  opens the bulk lookup as administrator, and sends \<open>/start\<close>: the awaiting flag is
  removed, though no stop button was pressed and no lookup was made.
\<close>

theorem bulk_lookup_counterexample:
  "lookup_mode (snd (run sample_env sample_user
      [CmdStart, Text ''Ann'', Button ''gender_female'', Text ''30'',
       Button ''admin:check_by_username'']
      (sample_bot_data, empty_user_data))) = (Some True, Some True)
   \<and> awaiting_username_check (snd (run sample_env sample_user
      [CmdStart, Text ''Ann'', Button ''gender_female'', Text ''30'',
       Button ''admin:check_by_username'', CmdStart]
      (sample_bot_data, empty_user_data))) = None"
  by (simp add: run_def handle_def handle_buttons_def handle_text_def btn_gender_def
      admin_button_def handle_registration_step_def start_def load_user_data_from_db_def
      catch_all_def startswith_def sample_defs Let_def truthy_def flag_def str_defs
      gender_text_def is_registered_def has_partial_data_def get_known_users_add_def
      name_not_given_def get_admins_def lookup_mode_def)

text \<open>
  C5, amended. In the bulk lookup mode (awaiting flag and continuous flag set) a text
  handled as a lookup changes nothing and is answered with one message, so the next text
  is a lookup again. An event changes the two flags only if it is the stop button
  pressed by an administrator, which sets both to false, or \<open>/start\<close> from a user who
  is registered, which removes the awaiting flag. With the continuous flag false a text
  handled as a lookup sets the awaiting flag to false, unless the id sent is 0, which is
  answered with "no id" and changes nothing.
\<close>

theorem bulk_lookup_mode:
  assumes "lookup_mode ud = (Some True, Some True)"
  shows "(text \<noteq> [] \<and> \<not> truthy (registration_step ud) \<longrightarrow>
            fst (handle e user (Text text) (bd, ud)) = bd
            \<and> fst (snd (handle e user (Text text) (bd, ud))) = ud
            \<and> length (snd (snd (handle e user (Text text) (bd, ud)))) = 1)
       \<and> (lookup_mode (fst (snd (handle e user ev (bd, ud)))) \<noteq> lookup_mode ud \<longrightarrow>
            (ev = Button ''admin:stop_check'' \<and> uid user \<in> admins (get_admins e bd))
            \<or> (ev = CmdStart \<and> is_registered (load_user_data_from_db e (uid user) ud)))
       \<and> (uid user \<in> admins (get_admins e bd) \<longrightarrow>
            lookup_mode (fst (snd (handle e user (Button ''admin:stop_check'') (bd, ud))))
              = (Some False, Some False))
       \<and> (is_registered (load_user_data_from_db e (uid user) ud) \<longrightarrow>
            awaiting_username_check (fst (snd (handle e user CmdStart (bd, ud)))) = None)
       \<and> (text \<noteq> [] \<and> \<not> truthy (registration_step ud) \<longrightarrow>
            awaiting_username_check (fst (snd (handle e user (Text text)
                (bd, ud\<lparr>continuous_check_mode := Some False\<rparr>)))) = Some False
            \<or> snd (snd (handle e user (Text text)
                (bd, ud\<lparr>continuous_check_mode := Some False\<rparr>)))
               = [Reply (Plain ''lookup_no_id'')])"
proof -
  from assms have a: "flag (awaiting_username_check ud)"
    and c: "flag (continuous_check_mode ud)"
    by (simp_all add: lookup_mode_def flag_def)
  have p1: "text \<noteq> [] \<and> \<not> truthy (registration_step ud) \<longrightarrow>
            fst (handle e user (Text text) (bd, ud)) = bd
            \<and> fst (snd (handle e user (Text text) (bd, ud))) = ud
            \<and> length (snd (snd (handle e user (Text text) (bd, ud)))) = 1"
    using a username_check_continuous[OF c, of e "text" bd]
    by (simp add: handle_def handle_text_def Let_def)
  have p2: "lookup_mode (fst (snd (handle e user ev (bd, ud)))) \<noteq> lookup_mode ud \<longrightarrow>
            (ev = Button ''admin:stop_check'' \<and> uid user \<in> admins (get_admins e bd))
            \<or> (ev = CmdStart \<and> is_registered (load_user_data_from_db e (uid user) ud))"
  proof (cases ev)
    case CmdStart
    then show ?thesis using start_mode[of e user ud bd] by (auto simp: handle_def)
  next
    case CmdMenu
    then show ?thesis by (simp add: handle_def)
  next
    case CmdAdmin
    then show ?thesis by (simp add: handle_def)
  next
    case CmdId
    then show ?thesis by (simp add: handle_def)
  next
    case (Button data)
    then show ?thesis
      using handle_buttons_mode[OF assms, of data user e bd] by (auto simp: handle_def)
  next
    case (Text t)
    then show ?thesis
      using handle_text_mode[OF assms, of e user t bd] by (simp add: handle_def)
  next
    case (Photo ph)
    then show ?thesis by (simp add: handle_def)
  qed
  have p3: "uid user \<in> admins (get_admins e bd) \<longrightarrow>
            lookup_mode (fst (snd (handle e user (Button ''admin:stop_check'') (bd, ud))))
              = (Some False, Some False)"
    by (simp add: handle_def stop_check_clears)
  have p4: "is_registered (load_user_data_from_db e (uid user) ud) \<longrightarrow>
            awaiting_username_check (fst (snd (handle e user CmdStart (bd, ud)))) = None"
    by (simp add: handle_def start_registered_clears)
  have p5: "text \<noteq> [] \<and> \<not> truthy (registration_step ud) \<longrightarrow>
            awaiting_username_check (fst (snd (handle e user (Text text)
                (bd, ud\<lparr>continuous_check_mode := Some False\<rparr>)))) = Some False
            \<or> snd (snd (handle e user (Text text)
                (bd, ud\<lparr>continuous_check_mode := Some False\<rparr>)))
               = [Reply (Plain ''lookup_no_id'')]"
    using a username_check_single[of "ud\<lparr>continuous_check_mode := Some False\<rparr>" e "text" bd]
    by (simp add: handle_def handle_text_def Let_def flag_def)
  show ?thesis
    by (intro conjI p1 p2 p3 p4 p5)
qed

theorem bulk_lookup_mode_witness:
  "lookup_mode (empty_user_data\<lparr>awaiting_username_check := Some True,
       continuous_check_mode := Some True\<rparr>) = (Some True, Some True)
   \<and> uid sample_user \<in> admins (get_admins sample_env sample_bot_data)
   \<and> fst (snd (handle sample_env sample_user (Text ''1'')
        (sample_bot_data,
         empty_user_data\<lparr>awaiting_username_check := Some True,
           continuous_check_mode := Some True\<rparr>)))
      = empty_user_data\<lparr>awaiting_username_check := Some True,
           continuous_check_mode := Some True\<rparr>
   \<and> lookup_mode (fst (snd (handle sample_env sample_user (Button ''admin:stop_check'')
        (sample_bot_data,
         empty_user_data\<lparr>awaiting_username_check := Some True,
           continuous_check_mode := Some True\<rparr>)))) = (Some False, Some False)"
proof -
  let ?ud = "empty_user_data\<lparr>awaiting_username_check := Some True,
       continuous_check_mode := Some True\<rparr>"
  have m: "lookup_mode ?ud = (Some True, Some True)" by (simp add: lookup_mode_def)
  have a: "uid sample_user \<in> admins (get_admins sample_env sample_bot_data)"
    by (simp add: sample_user_def get_admins_def sample_env_def sample_bot_data_def)
  have r: "\<not> truthy (registration_step ?ud)" by (simp add: empty_user_data_def truthy_def)
  show ?thesis
    using m a r bulk_lookup_mode[OF m, of "''1''" sample_env sample_user sample_bot_data]
    by simp
qed

end
